theory Spec2Isabelle
  imports Main
begin

section \<open>Python values, exceptions and containers\<close>

text \<open>
  The two modules of the repository, \<^verbatim>\<open>bbs/lightbar.py\<close> and \<^verbatim>\<open>bbs/input.py\<close>, are
  embedded as HOL functions. Keystrokes and echoed data are Python values: a (unicode)
  string, an integer (a curses key code, or \<^verbatim>\<open>curses.ascii.BEL\<close>) or \<^verbatim>\<open>None\<close>.
\<close>

datatype pyval = PStr string | PInt int | PNone

text \<open>
  Every exception of the source is a value. \<open>KeyError k\<close> is a failed dictionary lookup
  of \<open>k\<close>; \<open>AttributeError a\<close> is a failed read or write of the attribute \<open>a\<close>;
  \<open>IndexError\<close> is a list index out of range; \<open>TypeError\<close> is \<^verbatim>\<open>ord\<close> applied to
  something that is not a string of length one, or a call of \<^verbatim>\<open>None\<close>.
\<close>

datatype error = KeyError string | AttributeError string | IndexError | TypeError

text \<open>
  \<^verbatim>\<open>xs[i]\<close> on a Python list: indices \<open>0 .. len - 1\<close> count from the front,
  \<open>-len .. -1\<close> from the back, everything else raises \<^verbatim>\<open>IndexError\<close>.
\<close>

definition getitem :: "'a list \<Rightarrow> int \<Rightarrow> error + 'a" where
  "getitem xs i =
     (if 0 \<le> i \<and> i < int (length xs) then Inr (xs ! nat i)
      else if - int (length xs) \<le> i \<and> i < 0 then Inr (xs ! nat (int (length xs) + i))
      else Inl IndexError)"

section \<open>The terminal and the window (collaborators outside the sources)\<close>

text \<open>
  \<^verbatim>\<open>bbs.session.getterminal()\<close> and \<^verbatim>\<open>getsession().terminal\<close> are not part of the
  sources. The terminal is a parameter: a record of the key codes the two modules read
  from it. \<^verbatim>\<open>init_keystrokes\<close> reads an attribute spelled \<^verbatim>\<open>KEY_KEY_UP\<close>; whether the
  terminal has an attribute of that name is left open (\<open>None\<close>: it has not).
\<close>

record terminal =
  KEY_HOME :: int
  KEY_END :: int
  KEY_PPAGE :: int
  KEY_NPAGE :: int
  KEY_KEY_UP :: "int option"
  KEY_DOWN :: int
  KEY_EXIT :: int
  KEY_ENTER :: int
  KEY_BACKSPACE :: int

text \<open>
  \<^verbatim>\<open>bbs.ansiwin.AnsiWindow\<close>, the base class of \<^verbatim>\<open>Lightbar\<close>, is not part of the
  sources either. The attributes of it that \<^verbatim>\<open>Lightbar\<close> reads are fields of the record
  \<open>window\<close>; the Lightbar never assigns them.
\<close>

record window =
  visible_height :: int
  visible_bottom :: int
  visible_width :: int
  ypadding :: int
  xpadding :: int

section \<open>\<^verbatim>\<open>bbs/lightbar.py\<close>\<close>

subsection \<open>The key set\<close>

text \<open>A key set is a dictionary from the name of an action to the list of its keys.\<close>

type_synonym keyset = "string \<rightharpoonup> pyval list"

definition NETHACK_KEYSET :: keyset where
  "NETHACK_KEYSET =
     [''home'' \<mapsto> [PStr ''y''],
      ''end'' \<mapsto> [PStr ''n''],
      ''pgup'' \<mapsto> [PStr ''h''],
      ''pgdown'' \<mapsto> [PStr ''l''],
      ''up'' \<mapsto> [PStr ''k''],
      ''down'' \<mapsto> [PStr ''j''],
      ''exit'' \<mapsto> [PStr ''q'']]"

subsection \<open>The object\<close>

text \<open>
  The instance attributes of a \<^verbatim>\<open>Lightbar\<close>. An attribute whose Python name starts
  with an underscore carries the prefix \<open>p_\<close> here (\<^verbatim>\<open>_vitem_idx\<close> is \<open>p_vitem_idx\<close>).
\<close>

record lightbar = window +
  p_vitem_idx :: int
  p_vitem_lastidx :: int
  p_vitem_shift :: int
  p_vitem_lastshift :: int
  p_moved :: bool
  p_quit :: bool
  content :: "string list"
  keyset :: keyset

text \<open>
  A method runs on the object and either returns or raises; in both cases the object
  keeps whatever the method assigned before. The result of a method is therefore a pair:
  what it returned (\<open>Inr\<close>) or raised (\<open>Inl\<close>), and the object afterwards.
\<close>

type_synonym 'a run = "(error + 'a) \<times> lightbar"

definition and_then ::
  "('s \<Rightarrow> (error + unit) \<times> 's) \<Rightarrow> ('s \<Rightarrow> (error + 'a) \<times> 's) \<Rightarrow> 's \<Rightarrow> (error + 'a) \<times> 's" where
  "and_then first second s =
     (case first s of
        (Inl e, s') \<Rightarrow> (Inl e, s')
      | (Inr _, s') \<Rightarrow> second s')"

subsection \<open>Read-only properties\<close>

definition moved :: "lightbar \<Rightarrow> bool" where
  "moved s = p_moved s"

definition quit :: "lightbar \<Rightarrow> bool" where
  "quit s = p_quit s"

definition vitem_idx :: "lightbar \<Rightarrow> int" where
  "vitem_idx s = p_vitem_idx s"

definition vitem_shift :: "lightbar \<Rightarrow> int" where
  "vitem_shift s = p_vitem_shift s"

definition index :: "lightbar \<Rightarrow> int" where
  "index s = vitem_shift s + vitem_idx s"

definition last_index :: "lightbar \<Rightarrow> int" where
  "last_index s = p_vitem_lastshift s + p_vitem_lastidx s"

definition selection :: "lightbar \<Rightarrow> error + string" where
  "selection s = getitem (content s) (index s)"

definition position :: "lightbar \<Rightarrow> int \<times> int" where
  "position s = (vitem_idx s, vitem_shift s)"

subsection \<open>Property setters\<close>

text \<open>
  \<^verbatim>\<open>Lightbar\<close> declares its attributes with \<^verbatim>\<open>@property\<close> and \<^verbatim>\<open>@x.setter\<close>, the
  descriptor protocol of new-style classes. \<^verbatim>\<open>moved\<close> is declared with a getter only
  (lines 137 to 144), so the statement \<^verbatim>\<open>self.moved = True\<close> in the two setters below
  raises \<^verbatim>\<open>AttributeError\<close> (can't set attribute). It is the last statement of each
  setter: the two assignments before it have already happened, and \<^verbatim>\<open>_moved\<close> is not
  touched.
\<close>

definition set_moved :: "bool \<Rightarrow> lightbar \<Rightarrow> unit run" where
  "set_moved b s = (Inl (AttributeError ''moved''), s)"

definition set_vitem_idx :: "int \<Rightarrow> lightbar \<Rightarrow> unit run" where
  "set_vitem_idx v s =
     (if p_vitem_idx s \<noteq> v
      then set_moved True (s\<lparr>p_vitem_lastidx := p_vitem_idx s, p_vitem_idx := v\<rparr>)
      else (Inr (), s))"

definition set_vitem_shift :: "int \<Rightarrow> lightbar \<Rightarrow> unit run" where
  "set_vitem_shift v s =
     (if p_vitem_shift s \<noteq> v
      then set_moved True (s\<lparr>p_vitem_lastshift := p_vitem_shift s, p_vitem_shift := v\<rparr>)
      else (Inr (), s))"

subsection \<open>\<^verbatim>\<open>_chk_bounds\<close>\<close>

text \<open>
  The two \<^verbatim>\<open>while\<close> loops of \<^verbatim>\<open>_chk_bounds\<close>. An integer used as a condition
  (\<^verbatim>\<open>self.vitem_shift and ...\<close>) is true when it is not zero. The loop goes round again
  only when its body returned; a body that raised ends the loop with that exception.
\<close>

function chk_shift_loop :: "lightbar \<Rightarrow> unit run" where
  "chk_shift_loop s =
     (if vitem_shift s \<noteq> 0 \<and> vitem_shift s + visible_height s - 1 > int (length (content s))
      then (case set_vitem_shift (vitem_shift s - 1) s of
              (Inl e, s1) \<Rightarrow> (Inl e, s1)
            | (Inr _, s1) \<Rightarrow>
                (case set_vitem_idx (vitem_idx s1 + 1) s1 of
                   (Inl e, s2) \<Rightarrow> (Inl e, s2)
                 | (Inr _, s2) \<Rightarrow> chk_shift_loop s2))
      else (Inr (), s))"
  by pat_completeness auto
termination
  by (relation "{}") (auto simp: set_vitem_shift_def set_moved_def vitem_shift_def)

function chk_idx_loop :: "lightbar \<Rightarrow> unit run" where
  "chk_idx_loop s =
     (if vitem_idx s > 0 \<and> index s \<ge> int (length (content s))
      then (case set_vitem_idx (vitem_idx s - 1) s of
              (Inl e, s1) \<Rightarrow> (Inl e, s1)
            | (Inr _, s1) \<Rightarrow> chk_idx_loop s1)
      else (Inr (), s))"
  by pat_completeness auto
termination
  by (relation "{}") (auto simp: set_vitem_idx_def set_moved_def vitem_idx_def)

definition chk_bounds :: "lightbar \<Rightarrow> unit run" where
  "chk_bounds =
     and_then
       (\<lambda>s. if vitem_shift s \<noteq> 0 \<and> index s + 1 > int (length (content s))
            then and_then
                   (\<lambda>s. set_vitem_shift (int (length (content s)) - visible_height s + 1) s)
                   (\<lambda>s. set_vitem_idx (visible_height s - 2) s) s
            else (Inr (), s))
       (and_then chk_shift_loop chk_idx_loop)"

subsection \<open>\<^verbatim>\<open>position\<close> setter and \<^verbatim>\<open>update\<close>\<close>

definition set_position :: "int \<times> int \<Rightarrow> lightbar \<Rightarrow> unit run" where
  "set_position pos_tuple =
     and_then (set_vitem_idx (fst pos_tuple))
       (and_then (set_vitem_shift (snd pos_tuple)) chk_bounds)"

text \<open>
  The body of \<^verbatim>\<open>update\<close>; \<open>None\<close> is the default argument. The source decorates
  \<^verbatim>\<open>update\<close> with \<^verbatim>\<open>@property\<close>, so reading the attribute \<^verbatim>\<open>lightbar.update\<close> runs
  this body with the default argument (\<open>update_attribute\<close>).
\<close>

definition update :: "string list option \<Rightarrow> lightbar \<Rightarrow> unit run" where
  "update unicodelist s =
     (let s1 = s\<lparr>content := (case unicodelist of None \<Rightarrow> [[]] | Some l \<Rightarrow> l)\<rparr>
      in set_position (vitem_idx s1, vitem_shift s1) s1)"

definition update_attribute :: "lightbar \<Rightarrow> unit run" where
  "update_attribute = update None"

text \<open>
  The expression \<^verbatim>\<open>lightbar.update(unicodelist)\<close> reads the attribute first, which runs
  the body with the default argument and yields \<^verbatim>\<open>None\<close>, the value of a body without
  \<^verbatim>\<open>return\<close>; calling that value raises \<^verbatim>\<open>TypeError\<close>. The list in the parentheses
  never reaches the body.
\<close>

definition update_call :: "string list \<Rightarrow> lightbar \<Rightarrow> unit run" where
  "update_call unicodelist s =
     (case update_attribute s of
        (Inl e, s') \<Rightarrow> (Inl e, s')
      | (Inr _, s') \<Rightarrow> (Inl TypeError, s'))"

subsection \<open>Rendering\<close>

text \<open>
  The strings a Lightbar returns are joined from pieces that the window supplies:
  \<^verbatim>\<open>self.pos(y, x)\<close>, \<^verbatim>\<open>self.glyphs[name]\<close> and \<^verbatim>\<open>self.colors[name]\<close>. A returned
  string is modelled as the list of its pieces.
\<close>

datatype piece = Pos int int | Glyph string | Color string

definition refresh_row :: "lightbar \<Rightarrow> int \<Rightarrow> piece list" where
  "refresh_row s ypos =
     (let entry = vitem_shift s + ypos in
      if entry \<ge> int (length (content s))
      then replicate (nat (visible_width s)) (Glyph ''fill'')
      else [Pos (ypadding s + ypos) (xpadding s)]
           @ [if entry = index s then Color ''highlight'' else Color ''lowlight'']
           @ [Color ''normal''])"

definition refresh :: "lightbar \<Rightarrow> piece list" where
  "refresh s = concat (map (\<lambda>ypos. refresh_row s (int ypos)) [0 ..< nat (visible_bottom s)])"

definition refresh_quick :: "lightbar \<Rightarrow> piece list" where
  "refresh_quick s =
     (if p_vitem_lastshift s \<noteq> vitem_shift s \<and> p_vitem_lastshift s \<noteq> - 1
      then refresh s
      else if moved s
      then (if p_vitem_lastidx s \<noteq> - 1
            then refresh_row s (p_vitem_lastidx s) @ refresh_row s (vitem_idx s)
            else [])
      else [])"

subsection \<open>Navigation\<close>

text \<open>Each \<^verbatim>\<open>move_\<close> method returns the empty string unless a setter raised.\<close>

definition return_empty :: "lightbar \<Rightarrow> piece list run" where
  "return_empty s = (Inr [], s)"

definition move_down :: "lightbar \<Rightarrow> piece list run" where
  "move_down s =
     (if index s \<ge> int (length (content s)) then return_empty s
      else and_then
             (\<lambda>s. if vitem_idx s + 1 < visible_bottom s then set_vitem_idx (vitem_idx s + 1) s
                  else if vitem_idx s < int (length (content s))
                  then set_vitem_shift (vitem_shift s + 1) s
                  else (Inr (), s))
             return_empty s)"

definition move_home :: "lightbar \<Rightarrow> piece list run" where
  "move_home =
     and_then
       (\<lambda>s. if (0, 0) \<noteq> (vitem_idx s, vitem_shift s)
            then and_then (set_vitem_idx 0) (set_vitem_shift 0) s
            else (Inr (), s))
       return_empty"

definition move_end :: "lightbar \<Rightarrow> piece list run" where
  "move_end =
     and_then
       (\<lambda>s. if int (length (content s)) < visible_height s
            then set_vitem_idx (int (length (content s)) - 1) s
            else and_then
                   (\<lambda>s. set_vitem_shift (int (length (content s)) - visible_height s) s)
                   (\<lambda>s. set_vitem_idx (visible_height s - 1) s) s)
       return_empty"

subsection \<open>\<^verbatim>\<open>process_keystroke\<close>\<close>

text \<open>\<^verbatim>\<open>key in self.keyset[name]\<close>: the lookup raises \<^verbatim>\<open>KeyError\<close> on a missing name.\<close>

definition key_in :: "pyval \<Rightarrow> string \<Rightarrow> lightbar \<Rightarrow> error + bool" where
  "key_in key name s =
     (case keyset s name of
        None \<Rightarrow> Inl (KeyError name)
      | Some ks \<Rightarrow> Inr (key \<in> set ks))"

text \<open>
  The branches for page up, page down and up call \<^verbatim>\<open>self.move_pageup\<close>,
  \<^verbatim>\<open>self.move_pagedown\<close> and \<^verbatim>\<open>self.move_up\<close>. \<^verbatim>\<open>Lightbar\<close> defines these methods
  under the names \<^verbatim>\<open>_pageup\<close>, \<^verbatim>\<open>_pagedown\<close> and \<^verbatim>\<open>_up\<close> only, so the three calls
  fail with \<^verbatim>\<open>AttributeError\<close> at the attribute lookup.
\<close>

definition process_keystroke :: "pyval \<Rightarrow> lightbar \<Rightarrow> piece list run" where
  "process_keystroke key s0 =
     (let s = s0\<lparr>p_moved := False\<rparr> in
      case key_in key ''home'' s of Inl e \<Rightarrow> (Inl e, s) | Inr True \<Rightarrow> move_home s | Inr False \<Rightarrow>
     (case key_in key ''end'' s of Inl e \<Rightarrow> (Inl e, s) | Inr True \<Rightarrow> move_end s | Inr False \<Rightarrow>
     (case key_in key ''pgup'' s of Inl e \<Rightarrow> (Inl e, s)
        | Inr True \<Rightarrow> (Inl (AttributeError ''move_pageup''), s) | Inr False \<Rightarrow>
     (case key_in key ''pgdown'' s of Inl e \<Rightarrow> (Inl e, s)
        | Inr True \<Rightarrow> (Inl (AttributeError ''move_pagedown''), s) | Inr False \<Rightarrow>
     (case key_in key ''up'' s of Inl e \<Rightarrow> (Inl e, s)
        | Inr True \<Rightarrow> (Inl (AttributeError ''move_up''), s) | Inr False \<Rightarrow>
     (case key_in key ''down'' s of Inl e \<Rightarrow> (Inl e, s) | Inr True \<Rightarrow> move_down s | Inr False \<Rightarrow>
     (case key_in key ''exit'' s of Inl e \<Rightarrow> (Inl e, s)
        | Inr True \<Rightarrow> (Inr [], s\<lparr>p_quit := True\<rparr>) | Inr False \<Rightarrow> (Inr [], s))))))))"

subsection \<open>Construction\<close>

text \<open>
  \<^verbatim>\<open>init_keystrokes\<close> binds \<^verbatim>\<open>self.keyset\<close> to the module's dictionary
  \<^verbatim>\<open>NETHACK_KEYSET\<close> itself, not to a copy, and appends to its lists in place. The state
  it runs on is therefore that dictionary, as earlier constructions have left it.
  \<^verbatim>\<open>self.keyset[name].append(arg)\<close> looks the name up first, then evaluates the argument.
\<close>

definition append_key :: "string \<Rightarrow> error + pyval \<Rightarrow> keyset \<Rightarrow> (error + unit) \<times> keyset" where
  "append_key name arg G =
     (case G name of
        None \<Rightarrow> (Inl (KeyError name), G)
      | Some ks \<Rightarrow>
          (case arg of
             Inl e \<Rightarrow> (Inl e, G)
           | Inr v \<Rightarrow> (Inr (), G(name \<mapsto> ks @ [v]))))"

definition init_keystrokes :: "terminal \<Rightarrow> keyset \<Rightarrow> (error + unit) \<times> keyset" where
  "init_keystrokes term =
     and_then (append_key ''home'' (Inr (PInt (KEY_HOME term))))
    (and_then (append_key ''end'' (Inr (PInt (KEY_END term))))
    (and_then (append_key ''pageup'' (Inr (PInt (KEY_PPAGE term))))
    (and_then (append_key ''pagedown'' (Inr (PInt (KEY_NPAGE term))))
    (and_then (append_key ''up''
                (case KEY_KEY_UP term of
                   None \<Rightarrow> Inl (AttributeError ''KEY_KEY_UP'')
                 | Some k \<Rightarrow> Inr (PInt k)))
    (and_then (append_key ''down'' (Inr (PInt (KEY_DOWN term))))
              (append_key ''exit'' (Inr (PInt (KEY_EXIT term)))))))))"

text \<open>The attributes \<^verbatim>\<open>__init__\<close> assigns (lines 34 to 41), over a window \<open>w\<close>.\<close>

definition new_lightbar :: "window \<Rightarrow> keyset \<Rightarrow> lightbar" where
  "new_lightbar w ks =
     \<lparr>visible_height = visible_height w, visible_bottom = visible_bottom w,
      visible_width = visible_width w, ypadding = ypadding w, xpadding = xpadding w,
      p_vitem_idx = 0, p_vitem_lastidx = 0, p_vitem_shift = 0, p_vitem_lastshift = 0,
      p_moved = False, p_quit = False, content = [], keyset = ks\<rparr>"

text \<open>
  \<^verbatim>\<open>Lightbar.__init__\<close>. Its first statement calls the initialiser of the base class,
  which is outside the sources: \<open>ansiwindow_init\<close> stands for that call, returning
  the window it sets up or the exception it raises. The second component of the result
  is the module's dictionary afterwards.
\<close>

definition Lightbar_init ::
  "(int \<Rightarrow> int \<Rightarrow> int \<Rightarrow> int \<Rightarrow> error + window) \<Rightarrow> terminal \<Rightarrow>
   int \<Rightarrow> int \<Rightarrow> int \<Rightarrow> int \<Rightarrow> keyset \<Rightarrow> (error + lightbar) \<times> keyset" where
  "Lightbar_init ansiwindow_init term height width yloc xloc G =
     (case ansiwindow_init height width yloc xloc of
        Inl e \<Rightarrow> (Inl e, G)
      | Inr w \<Rightarrow>
          (case init_keystrokes term G of
             (Inl e, G') \<Rightarrow> (Inl e, G')
           | (Inr _, G') \<Rightarrow> (Inr (new_lightbar w G'), G')))"

section \<open>\<^verbatim>\<open>bbs/input.py\<close>\<close>

text \<open>
  \<^verbatim>\<open>getsession().read_event\<close> and \<^verbatim>\<open>echo\<close> are outside the sources. The events that
  \<^verbatim>\<open>read_event\<close> delivers, in order, are a parameter of the model: a list of pairs
  (event name, data). What \<^verbatim>\<open>readlineevent\<close> passes to \<^verbatim>\<open>echo\<close>, in order, is part of
  its result. When the events run out the loop is waiting in \<^verbatim>\<open>read_event\<close>:
  \<open>Waiting value\<close>, with the buffer at that moment.
\<close>

datatype outcome =
    Returned "string option \<times> string \<times> pyval"
  | Raised error
  | Waiting string

text \<open>
  \<^verbatim>\<open>ord\<close> needs a string of length one. \<^verbatim>\<open>curses.ascii.isprint\<close> holds of the codes
  32 to 126, and \<^verbatim>\<open>curses.ascii.BEL\<close> is the integer 7.
\<close>

definition ord :: "pyval \<Rightarrow> error + nat" where
  "ord v = (case v of PStr [c] \<Rightarrow> Inr (of_char c) | _ \<Rightarrow> Inl TypeError)"

definition isprint :: "nat \<Rightarrow> bool" where
  "isprint c = (32 \<le> c \<and> c \<le> 126)"

definition BEL :: pyval where
  "BEL = PInt 7"

text \<open>
  One round of the \<^verbatim>\<open>while\<close> loop on an event of kind \<^verbatim>\<open>'input'\<close>, from the test for
  the backspace key down to (not including) \<^verbatim>\<open>if interactive\<close>: the new buffer and
  what the round echoed, or the exception of \<^verbatim>\<open>ord\<close>.
\<close>

definition edit_key ::
  "terminal \<Rightarrow> int \<Rightarrow> string \<Rightarrow> string \<Rightarrow> bool \<Rightarrow> string \<Rightarrow> pyval \<Rightarrow> error + string \<times> pyval list" where
  "edit_key term width hidden paddchar silent val char =
     (if char = PInt (KEY_BACKSPACE term)
      then (if length val > 0
            then Inr (butlast val, [PStr ([CHR 0x08] @ paddchar @ [CHR 0x08])])
            else Inr (val, []))
      else (case char of
              PInt _ \<Rightarrow> Inr (val, [])
            | _ \<Rightarrow>
                (if int (length val) < width
                 then (case ord char of
                         Inl e \<Rightarrow> Inl e
                       | Inr c \<Rightarrow>
                           (if isprint c
                            then Inr (val @ (case char of PStr cs \<Rightarrow> cs | _ \<Rightarrow> []),
                                      [if hidden \<noteq> [] then PStr hidden else char])
                            else if \<not> silent then Inr (val, [BEL])
                            else Inr (val, [])))
                 else if \<not> silent then Inr (val, [BEL])
                 else Inr (val, []))))"

fun readline_loop ::
  "terminal \<Rightarrow> int \<Rightarrow> string \<Rightarrow> string \<Rightarrow> bool \<Rightarrow> bool \<Rightarrow>
   string \<Rightarrow> (string \<times> pyval) list \<Rightarrow> outcome \<times> pyval list" where
  "readline_loop term width hidden paddchar interactive silent val [] = (Waiting val, [])"
| "readline_loop term width hidden paddchar interactive silent val ((event, char) # rest) =
     (if event \<noteq> ''input'' then (Returned (Some val, event, char), [])
      else if char = PInt (KEY_EXIT term) then (Returned (None, ''input'', PNone), [])
      else if char = PInt (KEY_ENTER term)
      then (Returned (Some val, ''input'', PStr [CHR 0x0A]), [])
      else (case edit_key term width hidden paddchar silent val char of
              Inl e \<Rightarrow> (Raised e, [])
            | Inr (val', echoed) \<Rightarrow>
                (if interactive then (Returned (Some val', ''input'', PNone), echoed)
                 else (case readline_loop term width hidden paddchar interactive silent val' rest of
                         (result, echoed') \<Rightarrow> (result, echoed @ echoed')))))"

text \<open>
  \<^verbatim>\<open>readlineevent\<close>: the echo of the initial value, then the loop. The parameters
  \<^verbatim>\<open>events\<close> and \<^verbatim>\<open>timeout\<close> are only handed on to \<^verbatim>\<open>read_event\<close> and are part of
  the event list here.
\<close>

definition readlineevent ::
  "terminal \<Rightarrow> int \<Rightarrow> string \<Rightarrow> string \<Rightarrow> string \<Rightarrow> bool \<Rightarrow> bool \<Rightarrow>
   (string \<times> pyval) list \<Rightarrow> outcome \<times> pyval list" where
  "readlineevent term width val hidden paddchar interactive silent events =
     (let first =
            (if hidden = [] \<and> val \<noteq> [] then [PStr val]
             else if val \<noteq> [] then [PStr (concat (replicate (length val) hidden))]
             else [])
      in case readline_loop term width hidden paddchar interactive silent val events of
           (result, echoed) \<Rightarrow> (result, first @ echoed))"

section \<open>Stated properties and concrete inputs\<close>

text \<open>
  The invariant the specification states for the selector: the scroll offset is not
  negative and, unless the content is empty, the selected row lies in the window and the
  absolute index lies in the content.
\<close>

definition lightbar_inv :: "lightbar \<Rightarrow> bool" where
  "lightbar_inv s =
     (0 \<le> vitem_shift s \<and>
      (content s = [] \<or>
       (0 \<le> vitem_idx s \<and> vitem_idx s < visible_height s \<and>
        vitem_shift s + vitem_idx s < int (length (content s)))))"

text \<open>
  Keystrokes handed to \<^verbatim>\<open>process_keystroke\<close> one after the other, and \<^verbatim>\<open>move_down\<close>
  called \<open>n\<close> times, on one object: each call starts from the object as the call
  before left it.
\<close>

fun keystrokes :: "pyval list \<Rightarrow> lightbar \<Rightarrow> lightbar" where
  "keystrokes [] s = s"
| "keystrokes (key # keys) s = keystrokes keys (snd (process_keystroke key s))"

fun downs :: "nat \<Rightarrow> lightbar \<Rightarrow> lightbar" where
  "downs 0 s = s"
| "downs (Suc n) s = downs n (snd (move_down s))"

text \<open>The buffer an outcome of \<^verbatim>\<open>readlineevent\<close> holds, if any.\<close>

definition buffer_of :: "outcome \<Rightarrow> string option" where
  "buffer_of r = (case r of Returned (v, _, _) \<Rightarrow> v | Raised _ \<Rightarrow> None | Waiting v \<Rightarrow> Some v)"

text \<open>
  A window of five visible rows, a Lightbar over it with a given content, scroll offset
  and selected row (every other attribute as \<^verbatim>\<open>__init__\<close> assigns it), and a terminal
  with the key codes of curses.
\<close>

definition window5 :: window where
  "window5 =
     \<lparr>visible_height = 5, visible_bottom = 5, visible_width = 10, ypadding = 1, xpadding = 1\<rparr>"

definition lightbar_at :: "window \<Rightarrow> string list \<Rightarrow> int \<Rightarrow> int \<Rightarrow> lightbar" where
  "lightbar_at w entries shift idx =
     (new_lightbar w NETHACK_KEYSET)
       \<lparr>content := entries, p_vitem_shift := shift, p_vitem_idx := idx\<rparr>"

definition curses_terminal :: terminal where
  "curses_terminal =
     \<lparr>KEY_HOME = 262, KEY_END = 360, KEY_PPAGE = 339, KEY_NPAGE = 338, KEY_KEY_UP = None,
      KEY_DOWN = 258, KEY_EXIT = 361, KEY_ENTER = 343, KEY_BACKSPACE = 263\<rparr>"

section \<open>What the methods of the Lightbar do\<close>

lemmas lb_defs = window5_def lightbar_at_def new_lightbar_def NETHACK_KEYSET_def
  vitem_idx_def vitem_shift_def index_def moved_def quit_def
  set_vitem_idx_def set_vitem_shift_def set_moved_def and_then_def return_empty_def

text \<open>With the key set of the module, \<^verbatim>\<open>u'j'\<close> is the Down command.\<close>

lemma process_keystroke_down:
  "keyset s = NETHACK_KEYSET \<Longrightarrow>
   process_keystroke (PStr ''j'') s = move_down (s\<lparr>p_moved := False\<rparr>)"
  by (simp add: process_keystroke_def key_in_def NETHACK_KEYSET_def)

text \<open>
  The object after \<^verbatim>\<open>move_down\<close>, in one equation. The guard of the first line lets
  the last item through: it compares the absolute index with \<open>len\<close>, not with
  \<open>len - 1\<close>.
\<close>

lemma move_down_state:
  "snd (move_down s) =
     (if index s \<ge> int (length (content s)) then s
      else if vitem_idx s + 1 < visible_bottom s
      then s\<lparr>p_vitem_lastidx := p_vitem_idx s, p_vitem_idx := p_vitem_idx s + 1\<rparr>
      else if vitem_idx s < int (length (content s))
      then s\<lparr>p_vitem_lastshift := p_vitem_shift s, p_vitem_shift := p_vitem_shift s + 1\<rparr>
      else s)"
  by (simp add: move_down_def lb_defs)

text \<open>From the last item of any content, \<^verbatim>\<open>move_down\<close> steps one past the end.\<close>

lemma move_down_past_last:
  assumes "lightbar_inv s" and "content s \<noteq> []"
    and "index s = int (length (content s)) - 1"
  shows "index (snd (move_down s)) = int (length (content s))"
  using assms
  by (auto simp: move_down_state lightbar_inv_def index_def vitem_idx_def vitem_shift_def)

text \<open>No method that \<^verbatim>\<open>process_keystroke\<close> calls assigns \<^verbatim>\<open>_moved\<close>.\<close>

lemma moves_keep_moved:
  "p_moved (snd (move_home s)) = p_moved s"
  "p_moved (snd (move_end s)) = p_moved s"
  "p_moved (snd (move_down s)) = p_moved s"
  by (auto simp: move_home_def move_end_def move_down_def and_then_def return_empty_def
        set_vitem_idx_def set_vitem_shift_def set_moved_def
        split: prod.splits sum.splits if_splits)

lemma key_in_keeps_moved:
  assumes "\<not> p_moved s" and "\<not> p_moved (snd yes)" and "\<not> p_moved (snd no)"
  shows "\<not> p_moved (snd (case key_in key name s of
                              Inl e \<Rightarrow> (Inl e, s)
                            | Inr True \<Rightarrow> yes
                            | Inr False \<Rightarrow> no))"
  using assms by (cases "key_in key name s") (simp_all split: bool.splits)

lemma process_keystroke_never_moved: "moved (snd (process_keystroke key s)) = False"
proof -
  have "\<not> p_moved (snd (process_keystroke key s))"
    unfolding process_keystroke_def Let_def
    by (intro key_in_keeps_moved) (simp_all add: moves_keep_moved)
  then show ?thesis
    by (simp add: moved_def)
qed

text \<open>
  \<^verbatim>\<open>refresh_quick\<close> after \<^verbatim>\<open>move_down\<close>: a changed scroll offset gives the full
  refresh; a changed row gives nothing when the flag \<^verbatim>\<open>_moved\<close> was down before.
\<close>

lemma refresh_quick_after_shift:
  assumes "vitem_shift (snd (move_down s)) \<noteq> vitem_shift s" and "vitem_shift s \<noteq> - 1"
  shows "refresh_quick (snd (move_down s)) = refresh (snd (move_down s))"
  using assms
  by (auto simp: move_down_state refresh_quick_def vitem_shift_def split: if_splits)

lemma refresh_quick_after_idx:
  assumes "vitem_idx (snd (move_down s)) \<noteq> vitem_idx s"
    and "p_vitem_lastshift s = vitem_shift s" and "\<not> p_moved s"
  shows "refresh_quick (snd (move_down s)) = []"
  using assms
  by (auto simp: move_down_state refresh_quick_def vitem_shift_def vitem_idx_def moved_def
        split: if_splits)

section \<open>The claims about the Lightbar\<close>

text \<open>
  Claim C1: in every state reached by construction, \<^verbatim>\<open>update\<close> and
  \<^verbatim>\<open>process_keystroke\<close>, the scroll offset is at least 0 and, for non-empty content,
  the selected row is in \<open>[0, visible_height)\<close> and the absolute index is below
  \<open>len(content)\<close>. The source does not keep this. A new Lightbar of five rows whose
  \<^verbatim>\<open>update\<close> has installed a content (the one-entry default content, or three
  entries) satisfies the invariant; one Down keystroke (\<^verbatim>\<open>u'j'\<close>) on the one-entry
  content, or three on the three entries, leave the selected row one past the last
  entry.
\<close>

theorem invariant_broken_by_down:
  "fst (update_attribute (new_lightbar window5 NETHACK_KEYSET)) = Inr () \<and>
   lightbar_inv (snd (update_attribute (new_lightbar window5 NETHACK_KEYSET))) \<and>
   (let s = keystrokes [PStr ''j'']
              (snd (update_attribute (new_lightbar window5 NETHACK_KEYSET)))
    in content s = [[]] \<and> vitem_shift s = 0 \<and> vitem_idx s = 1 \<and> lightbar_inv s = False) \<and>
   update (Some [''a'', ''b'', ''c'']) (new_lightbar window5 NETHACK_KEYSET) =
     (Inr (), lightbar_at window5 [''a'', ''b'', ''c''] 0 0) \<and>
   lightbar_inv (lightbar_at window5 [''a'', ''b'', ''c''] 0 0) \<and>
   (let s = keystrokes [PStr ''j'', PStr ''j'', PStr ''j'']
              (lightbar_at window5 [''a'', ''b'', ''c''] 0 0)
    in content s = [''a'', ''b'', ''c''] \<and> vitem_shift s = 0 \<and> vitem_idx s = 3 \<and>
       lightbar_inv s = False)"
  by (simp add: update_attribute_def update_def set_position_def chk_bounds_def
        process_keystroke_down move_down_def lightbar_inv_def lb_defs)

text \<open>
  Claim C2: under the invariant, on non-empty content, \<^verbatim>\<open>move_down\<close> does nothing
  when the absolute index is \<open>len(content) - 1\<close>; otherwise it adds one to the selected
  row if \<open>vitem_idx + 1 < visible_height\<close> and one to the scroll offset if not. The
  source does not do the first: with three entries in five rows and the selection on
  the last entry (row 2, offset 0, a state of the invariant), \<^verbatim>\<open>move_down\<close> moves the
  selection to row 3.
\<close>

theorem move_down_at_last_item:
  "lightbar_inv (lightbar_at window5 [''a'', ''b'', ''c''] 0 2) \<and>
   index (lightbar_at window5 [''a'', ''b'', ''c''] 0 2) = 2 \<and>
   move_down (lightbar_at window5 [''a'', ''b'', ''c''] 0 2) =
     (Inl (AttributeError ''moved''),
      (lightbar_at window5 [''a'', ''b'', ''c''] 0 2)\<lparr>p_vitem_lastidx := 2, p_vitem_idx := 3\<rparr>)"
  by (simp add: move_down_def lightbar_inv_def lb_defs)

text \<open>
  Claim C3: from ten entries in five rows with the selection on entry 9 (offset 5,
  row 4), replacing the content with three entries leaves the absolute index 2. In
  the source the first assignment of \<^verbatim>\<open>_chk_bounds\<close> to \<^verbatim>\<open>vitem_shift\<close> ends in the
  setter's \<^verbatim>\<open>self.moved = True\<close>: \<^verbatim>\<open>update\<close> raises with the offset at -1 and the row
  still 4, absolute index 3. The call \<^verbatim>\<open>lightbar.update(entries)\<close> raises in the same
  place, over the default content.
\<close>

theorem update_shrinking_content:
  "index (lightbar_at window5 (replicate 10 ''x'') 5 4) = 9 \<and>
   update (Some [''a'', ''b'', ''c'']) (lightbar_at window5 (replicate 10 ''x'') 5 4) =
     (Inl (AttributeError ''moved''),
      (lightbar_at window5 [''a'', ''b'', ''c''] (- 1) 4)\<lparr>p_vitem_lastshift := 5\<rparr>) \<and>
   index (snd (update (Some [''a'', ''b'', ''c''])
                 (lightbar_at window5 (replicate 10 ''x'') 5 4))) = 3 \<and>
   update_call [''a'', ''b'', ''c''] (lightbar_at window5 (replicate 10 ''x'') 5 4) =
     (Inl (AttributeError ''moved''),
      (lightbar_at window5 [[]] (- 3) 4)\<lparr>p_vitem_lastshift := 5\<rparr>)"
  by (simp add: update_call_def update_attribute_def update_def set_position_def
        chk_bounds_def lb_defs)

text \<open>
  Claim C4: after \<^verbatim>\<open>process_keystroke(key)\<close> the flag \<^verbatim>\<open>moved\<close> is true exactly when
  the call changed the selected row or the scroll offset. In the source the flag is
  false after every call (\<open>process_keystroke_never_moved\<close>): with three entries and
  the selection on the first, the Down keystroke changes the row from 0 to 1, the call
  raises, and \<^verbatim>\<open>moved\<close> is false.
\<close>

theorem moved_flag_after_down:
  "vitem_idx (lightbar_at window5 [''a'', ''b'', ''c''] 0 0) = 0 \<and>
   vitem_idx (snd (process_keystroke (PStr ''j'')
                     (lightbar_at window5 [''a'', ''b'', ''c''] 0 0))) = 1 \<and>
   moved (snd (process_keystroke (PStr ''j'')
                 (lightbar_at window5 [''a'', ''b'', ''c''] 0 0))) = False \<and>
   fst (process_keystroke (PStr ''j'') (lightbar_at window5 [''a'', ''b'', ''c''] 0 0)) =
     Inl (AttributeError ''moved'')"
  by (simp add: process_keystroke_def key_in_def move_down_def lb_defs)

text \<open>
  Claim C5: \<^verbatim>\<open>refresh_quick\<close> after a Down that changed the selected row and not the
  scroll offset gives two rows, the old one and the new one; after a Down that changed
  the scroll offset it gives the full refresh. The source does the second
  (\<open>refresh_quick_after_shift\<close>) and not the first: with three entries and the
  selection on the first, Down changes the row from 0 to 1 and \<^verbatim>\<open>refresh_quick\<close>
  returns the empty string, where the two rows would be six pieces.
\<close>

theorem refresh_quick_after_down:
  "(let s = snd (move_down (lightbar_at window5 [''a'', ''b'', ''c''] 0 0))
    in vitem_idx s = 1 \<and> p_vitem_lastidx s = 0 \<and> vitem_shift s = 0 \<and>
       refresh_quick s = [] \<and>
       refresh_row s (p_vitem_lastidx s) @ refresh_row s (vitem_idx s) =
         [Pos 1 1, Color ''lowlight'', Color ''normal'',
          Pos 2 1, Color ''highlight'', Color ''normal''])"
  by (simp add: move_down_def refresh_quick_def refresh_row_def lb_defs)

text \<open>
  Claim C6: under the invariant, on non-empty content, repeated \<^verbatim>\<open>move_down\<close>
  reaches the absolute index \<open>len(content) - 1\<close> within \<open>len(content)\<close> steps, and
  every further \<^verbatim>\<open>move_down\<close> changes nothing. In the source the step after the last
  item still moves: with three entries, two steps reach index 2, the third reaches
  index 3, and only from there on nothing changes.
\<close>

theorem repeated_down_overshoots:
  "index (downs 2 (lightbar_at window5 [''a'', ''b'', ''c''] 0 0)) = 2 \<and>
   index (downs 3 (lightbar_at window5 [''a'', ''b'', ''c''] 0 0)) = 3 \<and>
   downs 4 (lightbar_at window5 [''a'', ''b'', ''c''] 0 0) =
     downs 3 (lightbar_at window5 [''a'', ''b'', ''c''] 0 0)"
  by (simp add: eval_nat_numeral move_down_def lb_defs)

text \<open>
  Claim C7: \<^verbatim>\<open>selection\<close> on empty content fails with an out-of-range error
  (\<^verbatim>\<open>IndexError\<close>), whatever the row and the offset are; on non-empty content under
  the invariant it returns \<^verbatim>\<open>content[vitem_shift + vitem_idx]\<close>.
\<close>

theorem selection_result:
  "(content s = [] \<longrightarrow> selection s = Inl IndexError) \<and>
   (content s \<noteq> [] \<and> lightbar_inv s \<longrightarrow>
      selection s = Inr (content s ! nat (vitem_shift s + vitem_idx s)))"
  by (auto simp: selection_def getitem_def lightbar_inv_def index_def)

theorem selection_result_witness:
  "selection (lightbar_at window5 [] 0 0) = Inl IndexError \<and>
   selection (lightbar_at window5 [''a'', ''b'', ''c''] 0 1) = Inr ''b''"
proof -
  have e: "content (lightbar_at window5 [] 0 0) = []"
    by (simp add: lb_defs)
  have n: "content (lightbar_at window5 [''a'', ''b'', ''c''] 0 1) \<noteq> [] \<and>
           lightbar_inv (lightbar_at window5 [''a'', ''b'', ''c''] 0 1)"
    by (simp add: lightbar_inv_def lb_defs)
  from selection_result [of "lightbar_at window5 [] 0 0"] e
  have 1: "selection (lightbar_at window5 [] 0 0) = Inl IndexError"
    by blast
  from selection_result [of "lightbar_at window5 [''a'', ''b'', ''c''] 0 1"] n
  have "selection (lightbar_at window5 [''a'', ''b'', ''c''] 0 1) =
        Inr (content (lightbar_at window5 [''a'', ''b'', ''c''] 0 1) !
             nat (vitem_shift (lightbar_at window5 [''a'', ''b'', ''c''] 0 1) +
                  vitem_idx (lightbar_at window5 [''a'', ''b'', ''c''] 0 1)))"
    by blast
  then have 2: "selection (lightbar_at window5 [''a'', ''b'', ''c''] 0 1) = Inr ''b''"
    by (simp add: lb_defs)
  from 1 2 show ?thesis by simp
qed

text \<open>
  Claim C10 says that constructing a Lightbar fails with a key-lookup error for every
  height, width, yloc and xloc. As stated this does not hold: the first statement of
  \<^verbatim>\<open>__init__\<close> (line 33) calls the initialiser of the base class, and it calls it
  without the instance. Where that call raises, construction ends there, with the
  exception of the call and before any key is looked up. With a base initialiser that
  raises \<^verbatim>\<open>TypeError\<close> the constructor fails with \<^verbatim>\<open>TypeError\<close>, which is no
  \<^verbatim>\<open>KeyError\<close>.
\<close>

theorem Lightbar_init_base_raises:
  "fst (Lightbar_init (\<lambda>height width yloc xloc. Inl TypeError) curses_terminal 5 10 1 1
          NETHACK_KEYSET) = Inl TypeError \<and>
   (\<forall>name. fst (Lightbar_init (\<lambda>height width yloc xloc. Inl TypeError) curses_terminal
                     5 10 1 1 NETHACK_KEYSET) \<noteq> Inl (KeyError name))"
  by (simp add: Lightbar_init_def)

text \<open>
  Claim C10, amended: for every height, width, yloc, xloc and terminal, constructing
  a Lightbar never returns an object. If the call of the base initialiser raises, the
  constructor fails with that exception; if it returns, the constructor fails with
  \<^verbatim>\<open>KeyError('pageup')\<close>, because \<^verbatim>\<open>init_keystrokes\<close> looks up \<^verbatim>\<open>'pageup'\<close> in a
  dictionary that has \<^verbatim>\<open>'pgup'\<close> and \<^verbatim>\<open>'pgdown'\<close> instead. This holds whenever the
  module's dictionary has the seven names of \<^verbatim>\<open>NETHACK_KEYSET\<close>, and the constructor
  leaves it with the same seven names, so that every later construction fails in the
  same way.
\<close>

theorem Lightbar_init_fails:
  assumes "dom G = dom NETHACK_KEYSET"
  shows "fst (Lightbar_init ansiwindow_init term height width yloc xloc G) =
           (case ansiwindow_init height width yloc xloc of
              Inl e \<Rightarrow> Inl e
            | Inr w \<Rightarrow> Inl (KeyError ''pageup'')) \<and>
         dom (snd (Lightbar_init ansiwindow_init term height width yloc xloc G)) =
           dom NETHACK_KEYSET"
proof -
  have "dom NETHACK_KEYSET =
          {''home'', ''end'', ''pgup'', ''pgdown'', ''up'', ''down'', ''exit''}"
    by (auto simp: NETHACK_KEYSET_def)
  with assms have "''home'' \<in> dom G" "''end'' \<in> dom G" "''pageup'' \<notin> dom G"
    by auto
  then obtain a b where G: "G ''home'' = Some a" "G ''end'' = Some b" "G ''pageup'' = None"
    by auto
  have 1: "fst (Lightbar_init ansiwindow_init term height width yloc xloc G) =
           (case ansiwindow_init height width yloc xloc of
              Inl e \<Rightarrow> Inl e
            | Inr w \<Rightarrow> Inl (KeyError ''pageup''))"
    using G
    by (simp add: Lightbar_init_def init_keystrokes_def and_then_def append_key_def
          split: sum.splits)
  have 2: "dom (snd (Lightbar_init ansiwindow_init term height width yloc xloc G)) = dom G"
    using G
    by (auto simp: Lightbar_init_def init_keystrokes_def and_then_def append_key_def
          split: sum.splits)
  from 1 2 assms show ?thesis by simp
qed

theorem Lightbar_init_fails_witness:
  "fst (Lightbar_init (\<lambda>height width yloc xloc. Inr window5) curses_terminal 5 10 1 1
          NETHACK_KEYSET) = Inl (KeyError ''pageup'') \<and>
   fst (Lightbar_init (\<lambda>height width yloc xloc. Inl TypeError) curses_terminal 5 10 1 1
          NETHACK_KEYSET) = Inl TypeError"
  using Lightbar_init_fails [of NETHACK_KEYSET "\<lambda>height width yloc xloc. Inr window5"
      curses_terminal 5 10 1 1]
    Lightbar_init_fails [of NETHACK_KEYSET "\<lambda>height width yloc xloc. Inl TypeError"
      curses_terminal 5 10 1 1]
  by simp

section \<open>The claims about the line editor\<close>

text \<open>
  The buffer never grows beyond the width, or beyond its initial length where that is
  larger: whatever the events are, the buffer that \<^verbatim>\<open>readlineevent\<close> returns or is
  waiting with is no longer than that.
\<close>

lemma edit_key_length:
  assumes "edit_key term width hidden paddchar silent val char = Inr (val', echoed)"
  shows "int (length val') \<le> max (int (length val)) width"
  using assms
  by (auto simp: edit_key_def ord_def split: if_splits pyval.splits list.splits sum.splits)

lemma readline_loop_length:
  assumes "buffer_of (fst (readline_loop term width hidden paddchar interactive silent
             val events)) = Some v"
  shows "int (length v) \<le> max (int (length val)) width"
  using assms
proof (induction events arbitrary: val)
  case Nil
  then show ?case by (simp add: buffer_of_def)
next
  case (Cons ev events)
  obtain event char where ev: "ev = (event, char)" by (cases ev)
  show ?case
  proof (cases "event \<noteq> ''input'' \<or> char = PInt (KEY_EXIT term) \<or> char = PInt (KEY_ENTER term)")
    case True
    with Cons.prems ev show ?thesis by (auto simp: buffer_of_def split: if_splits)
  next
    case False
    show ?thesis
    proof (cases "edit_key term width hidden paddchar silent val char")
      case (Inl e)
      with Cons.prems ev False show ?thesis by (simp add: buffer_of_def)
    next
      case (Inr p)
      obtain val' echoed where p: "p = (val', echoed)" by (cases p)
      have le: "int (length val') \<le> max (int (length val)) width"
        using Inr p edit_key_length by blast
      show ?thesis
      proof (cases interactive)
        case True
        with Cons.prems ev False Inr p le show ?thesis by (simp add: buffer_of_def)
      next
        case nonint: False
        with Cons.prems ev False Inr p
        have "buffer_of (fst (readline_loop term width hidden paddchar interactive silent
                val' events)) = Some v"
          by (simp split: prod.splits)
        from Cons.IH [OF this] le show ?thesis by simp
      qed
    qed
  qed
qed

text \<open>
  Claim C8: \<^verbatim>\<open>readlineevent\<close> with an empty initial value and width 3 receives
  \<^verbatim>\<open>'a'\<close>, \<^verbatim>\<open>'b'\<close>, \<^verbatim>\<open>'c'\<close>, \<^verbatim>\<open>'d'\<close> and the Enter key. It returns \<^verbatim>\<open>'abc'\<close>;
  \<^verbatim>\<open>'d'\<close> never enters the buffer; on \<^verbatim>\<open>'d'\<close> it echoes \<^verbatim>\<open>BEL\<close> when \<^verbatim>\<open>silent\<close> is
  false and nothing when \<^verbatim>\<open>silent\<close> is true. The three equations give the buffer and
  the echo after \<^verbatim>\<open>'c'\<close>, after \<^verbatim>\<open>'d'\<close> and after Enter, for every mask and pad
  character, on a terminal whose Enter key is not its Exit key.
\<close>

theorem readlineevent_full_buffer:
  assumes "KEY_ENTER term \<noteq> KEY_EXIT term"
  shows
    "readlineevent term 3 [] hidden paddchar False silent
       [(''input'', PStr ''a''), (''input'', PStr ''b''), (''input'', PStr ''c'')] =
       (Waiting ''abc'',
        if hidden = [] then [PStr ''a'', PStr ''b'', PStr ''c'']
        else [PStr hidden, PStr hidden, PStr hidden]) \<and>
     readlineevent term 3 [] hidden paddchar False silent
       [(''input'', PStr ''a''), (''input'', PStr ''b''), (''input'', PStr ''c''),
        (''input'', PStr ''d'')] =
       (Waiting ''abc'',
        (if hidden = [] then [PStr ''a'', PStr ''b'', PStr ''c'']
         else [PStr hidden, PStr hidden, PStr hidden]) @ (if silent then [] else [BEL])) \<and>
     readlineevent term 3 [] hidden paddchar False silent
       [(''input'', PStr ''a''), (''input'', PStr ''b''), (''input'', PStr ''c''),
        (''input'', PStr ''d''), (''input'', PInt (KEY_ENTER term))] =
       (Returned (Some ''abc'', ''input'', PStr [CHR 0x0A]),
        (if hidden = [] then [PStr ''a'', PStr ''b'', PStr ''c'']
         else [PStr hidden, PStr hidden, PStr hidden]) @ (if silent then [] else [BEL]))"
  using assms by (simp add: readlineevent_def edit_key_def ord_def isprint_def)

theorem readlineevent_full_buffer_witness:
  "readlineevent curses_terminal 3 [] [] '' '' False False
       [(''input'', PStr ''a''), (''input'', PStr ''b''), (''input'', PStr ''c''),
        (''input'', PStr ''d''), (''input'', PInt 343)] =
     (Returned (Some ''abc'', ''input'', PStr [CHR 0x0A]),
      [PStr ''a'', PStr ''b'', PStr ''c'', PInt 7]) \<and>
   readlineevent curses_terminal 3 [] [] '' '' False True
       [(''input'', PStr ''a''), (''input'', PStr ''b''), (''input'', PStr ''c''),
        (''input'', PStr ''d''), (''input'', PInt 343)] =
     (Returned (Some ''abc'', ''input'', PStr [CHR 0x0A]),
      [PStr ''a'', PStr ''b'', PStr ''c''])"
proof -
  have h: "KEY_ENTER curses_terminal \<noteq> KEY_EXIT curses_terminal"
    by (simp add: curses_terminal_def)
  have e: "KEY_ENTER curses_terminal = 343"
    by (simp add: curses_terminal_def)
  show ?thesis
    using readlineevent_full_buffer [OF h, of "[]" "'' ''" False]
      readlineevent_full_buffer [OF h, of "[]" "'' ''" True]
    by (simp add: e BEL_def)
qed

text \<open>
  Claim C9: \<^verbatim>\<open>readlineevent\<close> with an empty initial value, width 5 and no mask
  receives \<^verbatim>\<open>'a'\<close>, \<^verbatim>\<open>'b'\<close>, \<^verbatim>\<open>'c'\<close> and the Enter key, and returns the triple
  \<^verbatim>\<open>('abc', 'input', '\n')\<close>; it has echoed the three characters.
\<close>

theorem readlineevent_abc_enter:
  assumes "KEY_ENTER term \<noteq> KEY_EXIT term"
  shows "readlineevent term 5 [] [] paddchar False silent
           [(''input'', PStr ''a''), (''input'', PStr ''b''), (''input'', PStr ''c''),
            (''input'', PInt (KEY_ENTER term))] =
         (Returned (Some ''abc'', ''input'', PStr [CHR 0x0A]),
          [PStr ''a'', PStr ''b'', PStr ''c''])"
  using assms by (simp add: readlineevent_def edit_key_def ord_def isprint_def)

theorem readlineevent_abc_enter_witness:
  "fst (readlineevent curses_terminal 5 [] [] '' '' False False
          [(''input'', PStr ''a''), (''input'', PStr ''b''), (''input'', PStr ''c''),
           (''input'', PInt 343)]) =
     Returned (Some ''abc'', ''input'', PStr [CHR 0x0A])"
proof -
  have h: "KEY_ENTER curses_terminal \<noteq> KEY_EXIT curses_terminal"
    by (simp add: curses_terminal_def)
  have e: "KEY_ENTER curses_terminal = 343"
    by (simp add: curses_terminal_def)
  show ?thesis
    using readlineevent_abc_enter [OF h, of "'' ''" False] by (simp add: e)
qed

end
